theory Spec2Isabelle
  imports Complex_Main "HOL-Library.Sublist"
begin

section \<open>Text primitives of the host language\<close>

text \<open>
  Strings are lists of characters. The model covers ASCII text: the character classes
  below are the ASCII part of Python's \<open>str.isspace\<close>, \<open>\d\<close> and \<open>[A-Z]\<close>;
  characters above 127 belong to no class.
\<close>

definition is_space :: "char \<Rightarrow> bool" where
  "is_space c = (let n = (of_char c :: nat) in (9 \<le> n \<and> n \<le> 13) \<or> (28 \<le> n \<and> n \<le> 32))"

definition is_digit :: "char \<Rightarrow> bool" where
  "is_digit c = (let n = (of_char c :: nat) in 48 \<le> n \<and> n \<le> 57)"

definition is_upper :: "char \<Rightarrow> bool" where
  "is_upper c = (let n = (of_char c :: nat) in 65 \<le> n \<and> n \<le> 90)"

definition is_lower :: "char \<Rightarrow> bool" where
  "is_lower c = (let n = (of_char c :: nat) in 97 \<le> n \<and> n \<le> 122)"

definition to_lower :: "char \<Rightarrow> char" where
  "to_lower c = (if is_upper c then char_of (of_char c + (32 :: nat)) else c)"


definition strip :: "string \<Rightarrow> string" where
  "strip s = rev (dropWhile is_space (rev (dropWhile is_space s)))"

definition rstrip_chars :: "string \<Rightarrow> string \<Rightarrow> string" where
  "rstrip_chars chars s = rev (dropWhile (\<lambda>c. c \<in> set chars) (rev s))"

fun contains :: "string \<Rightarrow> string \<Rightarrow> bool" where
  "contains sub [] = (sub = [])"
| "contains sub (x # xs) = (take (length sub) (x # xs) = sub \<or> contains sub xs)"


text \<open>\<open>' '.join(parts)\<close>.\<close>

fun join_space :: "string list \<Rightarrow> string" where
  "join_space [] = []"
| "join_space [s] = s"
| "join_space (s # t # ts) = s @ CHR '' '' # join_space (t # ts)"

text \<open>\<open>str(n)\<close> for an integer.\<close>

definition digit_char :: "nat \<Rightarrow> char" where
  "digit_char d = char_of (48 + d)"

fun show_nat :: "nat \<Rightarrow> string" where
  "show_nat n = (if n < 10 then [digit_char n] else show_nat (n div 10) @ [digit_char (n mod 10)])"

declare show_nat.simps [simp del]

definition show_int :: "int \<Rightarrow> string" where
  "show_int i = (if i < 0 then CHR ''-'' # show_nat (nat (- i)) else show_nat (nat i))"

text \<open>
  \<open>int(s)\<close> on a string: surrounding whitespace is ignored, one sign is allowed, and the
  digits may be separated by single underscores. Anything else raises \<open>ValueError\<close>,
  which is \<open>None\<close> here.
\<close>

fun parse_digits :: "nat \<Rightarrow> string \<Rightarrow> nat option" where
  "parse_digits acc [] = Some acc"
| "parse_digits acc (c # cs) =
     (if is_digit c then parse_digits (10 * acc + (of_char c - 48)) cs
      else if c = CHR ''_'' then
        (case cs of [] \<Rightarrow> None
         | d # _ \<Rightarrow> if is_digit d then parse_digits acc cs else None)
      else None)"

definition parse_nat :: "string \<Rightarrow> nat option" where
  "parse_nat s = (case s of [] \<Rightarrow> None
                  | c # _ \<Rightarrow> if is_digit c then parse_digits 0 s else None)"

definition py_int :: "string \<Rightarrow> int option" where
  "py_int s =
     (case strip s of [] \<Rightarrow> None
      | c # r \<Rightarrow>
          if c = CHR ''+'' then map_option int (parse_nat r)
          else if c = CHR ''-'' then map_option (\<lambda>n. - int n) (parse_nat r)
          else map_option int (parse_nat (c # r)))"

section \<open>Regular expressions, as the patterns of the source use them\<close>

text \<open>
  Every pattern of the source is a sequence of single-character classes, each with a
  quantifier, under \<open>re.IGNORECASE\<close>. The matcher is the backtracking one of the host
  library: a greedy quantifier takes as many characters as it can and gives them back one
  at a time when the rest of the pattern fails. Under \<open>IGNORECASE\<close> a literal letter and
  the class \<open>[A-Z]\<close> match both cases.
\<close>

datatype cclass = Lit char | Space | Digit | AZ | AnyChar | Union "cclass list"

fun cmatch :: "cclass \<Rightarrow> char \<Rightarrow> bool" where
  "cmatch (Lit c) x = (to_lower x = to_lower c)"
| "cmatch Space x = is_space x"
| "cmatch Digit x = is_digit x"
| "cmatch AZ x = (is_upper x \<or> is_lower x)"
| "cmatch AnyChar x = (x \<noteq> CHR 0x0A)"
| "cmatch (Union cs) x = (\<exists>c \<in> set cs. cmatch c x)"

datatype quant = One | Opt | Star | Plus

text \<open>An item is a class, its quantifier and whether it lies inside group 1; \<open>Eos\<close> is \<open>$\<close>.\<close>

datatype item = Item cclass quant bool | Eos

definition lit :: "string \<Rightarrow> item list" where
  "lit s = map (\<lambda>c. Item (Lit c) One False) s"

definition take_char :: "char \<Rightarrow> bool \<Rightarrow> string \<times> string \<Rightarrow> string \<times> string" where
  "take_char x cap r = (x # fst r, if cap then x # snd r else snd r)"

text \<open>\<open>re_match_here p s\<close>: the match of \<open>p\<close> at the start of \<open>s\<close>, as (matched text, group 1).\<close>

fun re_match_here :: "item list \<Rightarrow> string \<Rightarrow> (string \<times> string) option" where
  "re_match_here [] s = Some ([], [])"
| "re_match_here (Eos # p) s =
     (if s = [] \<or> s = [CHR 0x0A] then re_match_here p s else None)"
| "re_match_here (Item c One cap # p) [] = None"
| "re_match_here (Item c One cap # p) (x # xs) =
     (if cmatch c x then map_option (take_char x cap) (re_match_here p xs) else None)"
| "re_match_here (Item c Opt cap # p) [] = re_match_here p []"
| "re_match_here (Item c Opt cap # p) (x # xs) =
     (if cmatch c x then
        (case re_match_here p xs of
           Some r \<Rightarrow> Some (take_char x cap r)
         | None \<Rightarrow> re_match_here p (x # xs))
      else re_match_here p (x # xs))"
| "re_match_here (Item c Star cap # p) [] = re_match_here p []"
| "re_match_here (Item c Star cap # p) (x # xs) =
     (if cmatch c x then
        (case re_match_here (Item c Star cap # p) xs of
           Some r \<Rightarrow> Some (take_char x cap r)
         | None \<Rightarrow> re_match_here p (x # xs))
      else re_match_here p (x # xs))"
| "re_match_here (Item c Plus cap # p) [] = None"
| "re_match_here (Item c Plus cap # p) (x # xs) =
     (if cmatch c x then map_option (take_char x cap) (re_match_here (Item c Star cap # p) xs)
      else None)"

text \<open>\<open>re.match(p, s, re.IGNORECASE)\<close> as a truth value.\<close>

definition re_match :: "item list \<Rightarrow> string \<Rightarrow> bool" where
  "re_match p s = (re_match_here p s \<noteq> None)"

text \<open>
  \<open>re.finditer(p, s, re.IGNORECASE)\<close>: the non-overlapping matches from left to right, each
  as (group 0, group 1). After an empty match the scan moves on by one character.
\<close>

function finditer :: "item list \<Rightarrow> string \<Rightarrow> (string \<times> string) list" where
  "finditer p [] = (case re_match_here p [] of Some r \<Rightarrow> [r] | None \<Rightarrow> [])"
| "finditer p (x # xs) =
     (case re_match_here p (x # xs) of
        Some r \<Rightarrow> r # finditer p (drop (length (fst r) - 1) xs)
      | None \<Rightarrow> finditer p xs)"
  by pat_completeness auto
termination
  by (relation "measure (\<lambda>(p, s). length s)") auto

section \<open>The source reader's data\<close>

text \<open>
  A paragraph of the source document: its text, the name of its style (if it has one) and
  the \<open>bold\<close> property of each of its runs, which is unset, true or false.
\<close>

record raw_paragraph =
  p_text :: string
  p_style :: "string option"
  p_runs :: "bool option list"


text \<open>
  An image blob is seen through the two decoders that read it: the size the imaging
  library reports when it opens the blob (\<open>None\<close> when opening raises) and whether the
  document writer accepts the blob as a picture.
\<close>

record image_blob =
  pil_size :: "(nat \<times> nat) option"
  docx_accepts :: bool

text \<open>A relationship of the container; \<open>target_blob\<close> is \<open>None\<close> when reading it raises.\<close>

record relationship =
  rel_id :: string
  target_ref :: string
  target_blob :: "image_blob option"

section \<open>The content model\<close>

record body_paragraph =
  b_text :: string
  b_style :: string
  is_heading :: bool

record figure =
  f_number :: nat
  f_image_data :: image_blob
  f_caption :: string
  f_rel_id :: string

record table_entry =
  t_number :: nat
  t_data :: "string list list"
  t_caption :: string

record content =
  title :: string
  authors :: "string list"
  abstract :: string
  body :: "body_paragraph list"
  references :: "string list"
  figures :: "figure list"
  tables :: "table_entry list"

record citation =
  c_type :: string
  c_number :: string
  c_position :: nat
  c_context :: string
  c_match_text :: string

section \<open>Paragraph classifier\<close>

subsection \<open>\<open>_extract_title\<close>\<close>





subsection \<open>\<open>_extract_abstract\<close>\<close>

text \<open>\<open>^abstract:?$\<close>\<close>

definition abstract_start :: "item list" where
  "abstract_start = lit ''abstract'' @ [Item (Lit CHR '':'') Opt False, Eos]"

text \<open>\<open>^(introduction|methods|keywords):?$\<close>: the alternation is tried branch by branch.\<close>

definition abstract_end :: "item list list" where
  "abstract_end =
     map (\<lambda>w. lit w @ [Item (Lit CHR '':'') Opt False, Eos])
       [''introduction'', ''methods'', ''keywords'']"

definition is_abstract_start :: "string \<Rightarrow> bool" where
  "is_abstract_start t = re_match abstract_start t"

definition is_abstract_end :: "string \<Rightarrow> bool" where
  "is_abstract_end t = (\<exists>p \<in> set abstract_end. re_match p t)"

fun abstract_loop :: "bool \<Rightarrow> string list \<Rightarrow> raw_paragraph list \<Rightarrow> string list" where
  "abstract_loop in_abstract abstract_text [] = abstract_text"
| "abstract_loop in_abstract abstract_text (p # ps) =
     (if is_abstract_start (strip (p_text p)) then abstract_loop True abstract_text ps
      else if in_abstract \<and> is_abstract_end (strip (p_text p)) then abstract_text
      else if in_abstract \<and> strip (p_text p) \<noteq> []
        then abstract_loop in_abstract (abstract_text @ [strip (p_text p)]) ps
      else abstract_loop in_abstract abstract_text ps)"

definition extract_abstract :: "raw_paragraph list \<Rightarrow> string" where
  "extract_abstract paras = join_space (abstract_loop False [] paras)"

section \<open>Asset extractor\<close>

text \<open>\<open>^\*?\*?figure\s+{N}[\.:)\s]+(.+)\<close>\<close>

definition caption_pattern :: "string \<Rightarrow> nat \<Rightarrow> item list" where
  "caption_pattern word n =
     [Item (Lit CHR ''*'') Opt False, Item (Lit CHR ''*'') Opt False] @ lit word
     @ [Item Space Plus False] @ lit (show_nat n)
     @ [Item (Union [Lit CHR ''.'', Lit CHR '':'', Lit CHR '')'', Space]) Plus False,
        Item AnyChar Plus True]"

fun find_caption :: "string \<Rightarrow> nat \<Rightarrow> raw_paragraph list \<Rightarrow> string option" where
  "find_caption word n [] = None"
| "find_caption word n (p # ps) =
     (case re_match_here (caption_pattern word n) (strip (p_text p)) of
        Some r \<Rightarrow> Some (strip (snd r))
      | None \<Rightarrow> find_caption word n ps)"

definition find_figure_caption :: "raw_paragraph list \<Rightarrow> nat \<Rightarrow> string" where
  "find_figure_caption paras figure_num =
     (case find_caption ''figure'' figure_num paras of
        Some c \<Rightarrow> c
      | None \<Rightarrow> ''Figure '' @ show_nat figure_num)"

text \<open>
  The state of the loop of \<open>_extract_figures\<close>: the figures so far, the counter, and the
  numbers named by the warnings printed so far.
\<close>

record extraction =
  x_figures :: "figure list"
  figure_counter :: nat
  warnings :: "nat list"

definition extract_figure_step :: "raw_paragraph list \<Rightarrow> extraction \<Rightarrow> relationship \<Rightarrow> extraction" where
  "extract_figure_step paras st rel =
     (if contains ''image'' (target_ref rel) then
        (case target_blob rel of
           Some image_data \<Rightarrow>
             st\<lparr>x_figures := x_figures st @
                   [\<lparr>f_number = figure_counter st + 1, f_image_data = image_data,
                     f_caption = find_figure_caption paras (figure_counter st + 1),
                     f_rel_id = rel_id rel\<rparr>],
                figure_counter := figure_counter st + 1\<rparr>
         | None \<Rightarrow> st\<lparr>warnings := warnings st @ [figure_counter st + 1]\<rparr>)
      else st)"

definition extract_figures_run :: "raw_paragraph list \<Rightarrow> relationship list \<Rightarrow> extraction" where
  "extract_figures_run paras rels =
     foldl (extract_figure_step paras) \<lparr>x_figures = [], figure_counter = 0, warnings = []\<rparr> rels"

definition extract_figures :: "raw_paragraph list \<Rightarrow> relationship list \<Rightarrow> figure list" where
  "extract_figures paras rels = x_figures (extract_figures_run paras rels)"

section \<open>Citation locator\<close>

definition number_group :: "bool \<Rightarrow> item list" where
  "number_group letter =
     Item Digit Plus True # (if letter then [Item AZ Opt True] else [])"

definition stars :: "item list" where
  "stars = [Item (Lit CHR ''*'') Opt False, Item (Lit CHR ''*'') Opt False]"

text \<open>\<open>\(\s*\*?\*?WORD\.?\s+(N)\s*\)\<close>, with the dot only in the abbreviated form.\<close>

definition parenthesised :: "string \<Rightarrow> bool \<Rightarrow> bool \<Rightarrow> item list" where
  "parenthesised word dot letter =
     [Item (Lit CHR ''('') One False, Item Space Star False] @ stars @ lit word
     @ (if dot then [Item (Lit CHR ''.'') Opt False] else [])
     @ [Item Space Plus False] @ number_group letter
     @ [Item Space Star False, Item (Lit CHR '')'') One False]"

text \<open>\<open>\*?\*?WORD\s+(N)\*?\*?\<close>\<close>

definition bare :: "string \<Rightarrow> bool \<Rightarrow> item list" where
  "bare word letter = stars @ lit word @ [Item Space Plus False] @ number_group letter @ stars"

definition figure_patterns :: "item list list" where
  "figure_patterns =
     [parenthesised ''Fig'' True True, bare ''Figure'' True, parenthesised ''Figure'' False True]"

definition table_patterns :: "item list list" where
  "table_patterns =
     [parenthesised ''Tab'' True False, bare ''Table'' False, parenthesised ''Table'' False False]"

definition matches_of :: "string \<Rightarrow> item list list \<Rightarrow> nat \<Rightarrow> string \<Rightarrow> citation list" where
  "matches_of kind patterns para_idx txt =
     concat (map (\<lambda>pattern.
       map (\<lambda>m. \<lparr>c_type = kind, c_number = snd m, c_position = para_idx,
                 c_context = txt, c_match_text = fst m\<rparr>) (finditer pattern txt)) patterns)"

definition paragraph_citations :: "nat \<times> body_paragraph \<Rightarrow> citation list" where
  "paragraph_citations ip =
     matches_of ''figure'' figure_patterns (fst ip) (b_text (snd ip))
     @ matches_of ''table'' table_patterns (fst ip) (b_text (snd ip))"

text \<open>The list \<open>citations\<close> before the duplicates are removed.\<close>

definition all_matches :: "body_paragraph list \<Rightarrow> citation list" where
  "all_matches bd = concat (map paragraph_citations (enumerate 0 bd))"

definition citation_key :: "citation \<Rightarrow> string \<times> string \<times> nat" where
  "citation_key c = (c_type c, c_number c, c_position c)"

fun unique_loop ::
  "(string \<times> string \<times> nat) set \<Rightarrow> citation list \<Rightarrow> citation list \<Rightarrow> citation list" where
  "unique_loop seen unique_citations [] = unique_citations"
| "unique_loop seen unique_citations (c # cs) =
     (if citation_key c \<notin> seen
      then unique_loop (insert (citation_key c) seen) (unique_citations @ [c]) cs
      else unique_loop seen unique_citations cs)"

text \<open>\<open>sorted(..., key=position)\<close> is a stable sort, as \<open>sort_key\<close> is.\<close>

definition detect_citations :: "body_paragraph list \<Rightarrow> citation list" where
  "detect_citations bd = sort_key c_position (unique_loop {} [] (all_matches bd))"

section \<open>The output document\<close>

text \<open>
  The document writer appends blocks to the end of the document. A block is a paragraph
  (a heading is a paragraph with a heading style) or a grid of cells, each cell a list of
  paragraphs. A run carries its text, the font properties the formatter sets, and a
  picture when one was added: the image and the width handed to the writer, in EMU. The
  formatter hands over no height; the writer scales it with the width.
\<close>

datatype py_error = ValueError | IndexError | ZeroDivisionError | ImageError

datatype alignment = CENTER

record picture =
  pic_image :: image_blob
  pic_width :: int

record run =
  r_text :: string
  r_font_name :: "string option"
  r_font_size :: "nat option"
  r_bold :: bool
  r_italic :: bool
  r_picture :: "picture option"

record para =
  para_style :: "string option"
  para_alignment :: "alignment option"
  para_runs :: "run list"
  para_line_spacing :: "real option"
  para_space_after :: "nat option"

record grid =
  g_style :: string
  g_rows :: "para list list list"

datatype block = Para para | Grid grid

type_synonym document = "block list"

definition empty_run :: run where
  "empty_run = \<lparr>r_text = [], r_font_name = None, r_font_size = None, r_bold = False,
                 r_italic = False, r_picture = None\<rparr>"

definition empty_paragraph :: para where
  "empty_paragraph = \<lparr>para_style = None, para_alignment = None, para_runs = [],
                       para_line_spacing = None, para_space_after = None\<rparr>"

text \<open>\<open>Inches(x)\<close> is \<open>int(x * 914400)\<close>; \<open>int\<close> rounds towards zero. Widths are exact
  numbers here: the rounding of the host's floating point is not modelled.\<close>

definition Inches :: "real \<Rightarrow> int" where
  "Inches x = (if 0 \<le> x then \<lfloor>x * 914400\<rfloor> else \<lceil>x * 914400\<rceil>)"

text \<open>\<open>run.add_picture(stream, width=w)\<close> raises when the writer does not accept the blob
  and leaves the run as it was.\<close>

definition add_picture :: "image_blob \<Rightarrow> int \<Rightarrow> run \<Rightarrow> py_error + run" where
  "add_picture blob w r =
     (if docx_accepts blob then Inr (r\<lparr>r_picture := Some \<lparr>pic_image = blob, pic_width = w\<rparr>\<rparr>)
      else Inl ImageError)"

section \<open>Reflow and placement\<close>

record formatter =
  font_size :: nat
  line_spacing :: real
  figure_width :: real

definition FONT_NAME :: string where
  "FONT_NAME = ''Times New Roman''"

definition set_paragraph_spacing :: "formatter \<Rightarrow> para \<Rightarrow> para" where
  "set_paragraph_spacing fmt p =
     p\<lparr>para_line_spacing := Some (line_spacing fmt), para_space_after := Some 0\<rparr>"

subsection \<open>\<open>_insert_figure\<close>\<close>

text \<open>The paragraph that holds the picture: centred, with one run.\<close>

definition image_paragraph :: "run \<Rightarrow> block" where
  "image_paragraph r =
     Para (empty_paragraph\<lparr>para_alignment := Some CENTER, para_runs := [r]\<rparr>)"

text \<open>A caption: centred, one bold run of size 10.\<close>

definition caption_block :: "string \<Rightarrow> block" where
  "caption_block caption_text =
     Para (empty_paragraph\<lparr>para_alignment := Some CENTER,
       para_runs := [empty_run\<lparr>r_text := caption_text, r_font_name := Some FONT_NAME,
                               r_font_size := Some 10, r_bold := True\<rparr>]\<rparr>)"

text \<open>The placeholder of the outer handler: one italic run.\<close>

definition failure_placeholder :: "string \<Rightarrow> string \<Rightarrow> block" where
  "failure_placeholder kind num =
     Para (empty_paragraph\<lparr>para_runs :=
       [empty_run\<lparr>r_text := ''['' @ kind @ '' '' @ num @ '' - insertion failed]'',
                   r_italic := True\<rparr>]\<rparr>)"

text \<open>
  The sizes computed from the image: \<open>(width_inches, height_inches)\<close>. The division
  raises on a pixel width of zero.
\<close>

definition figure_geometry :: "formatter \<Rightarrow> nat \<times> nat \<Rightarrow> py_error + real \<times> real" where
  "figure_geometry fmt sz =
     (let img_width = fst sz; img_height = snd sz in
      if img_width = 0 then Inl ZeroDivisionError
      else
        let aspect_ratio = real img_height / real img_width;
            width_inches = min (figure_width fmt) 6.5;
            height_inches = width_inches * aspect_ratio
        in Inr (width_inches, height_inches))"

text \<open>
  The inner \<open>try\<close>: open the image, compute the sizes, add the centred paragraph and the
  picture. The result is the error raised, if any, and the document as it then is.
\<close>

definition sized_picture :: "formatter \<Rightarrow> image_blob \<Rightarrow> document \<Rightarrow> py_error option \<times> document" where
  "sized_picture fmt image_data doc =
     (case pil_size image_data of
        None \<Rightarrow> (Some ImageError, doc)
      | Some sz \<Rightarrow>
          (case figure_geometry fmt sz of
             Inl e \<Rightarrow> (Some e, doc)
           | Inr wh \<Rightarrow>
               (case add_picture image_data (Inches (fst wh)) empty_run of
                  Inl e \<Rightarrow> (Some e, doc @ [image_paragraph empty_run])
                | Inr r \<Rightarrow> (None, doc @ [image_paragraph r]))))"

text \<open>The inner \<open>except\<close>: the same at the configured width.\<close>

definition fallback_picture :: "formatter \<Rightarrow> image_blob \<Rightarrow> document \<Rightarrow> py_error option \<times> document" where
  "fallback_picture fmt image_data doc =
     (case add_picture image_data (Inches (figure_width fmt)) empty_run of
        Inl e \<Rightarrow> (Some e, doc @ [image_paragraph empty_run])
      | Inr r \<Rightarrow> (None, doc @ [image_paragraph r]))"

definition add_figure_image :: "formatter \<Rightarrow> image_blob \<Rightarrow> document \<Rightarrow> py_error option \<times> document" where
  "add_figure_image fmt image_data doc =
     (case sized_picture fmt image_data doc of
        (None, doc') \<Rightarrow> (None, doc')
      | (Some e, doc') \<Rightarrow> fallback_picture fmt image_data doc')"

definition uppercase_letters :: string where
  "uppercase_letters = ''ABCDEFGHIJKLMNOPQRSTUVWXYZ''"

text \<open>The body of the outer \<open>try\<close> of \<open>_insert_figure\<close>.\<close>

definition figure_try :: "formatter \<Rightarrow> content \<Rightarrow> citation \<Rightarrow> document \<Rightarrow> py_error option \<times> document" where
  "figure_try fmt cont cit doc =
     (case py_int (rstrip_chars uppercase_letters (c_number cit)) of
        None \<Rightarrow> (Some ValueError, doc)
      | Some fig_num \<Rightarrow>
          (case filter (\<lambda>f. int (f_number f) = fig_num) (figures cont) of
             [] \<Rightarrow> (None, doc)
           | fig # _ \<Rightarrow>
               (case add_figure_image fmt (f_image_data fig) (doc @ [Para empty_paragraph]) of
                  (Some e, doc') \<Rightarrow> (Some e, doc')
                | (None, doc') \<Rightarrow>
                    (None, doc' @ [caption_block (''Figure '' @ show_int fig_num @ '': '' @ f_caption fig),
                                   Para empty_paragraph]))))"

definition insert_figure :: "formatter \<Rightarrow> content \<Rightarrow> citation \<Rightarrow> document \<Rightarrow> document" where
  "insert_figure fmt cont cit doc =
     (case figure_try fmt cont cit doc of
        (None, doc') \<Rightarrow> doc'
      | (Some e, doc') \<Rightarrow> doc' @ [failure_placeholder ''Figure'' (c_number cit)])"

subsection \<open>\<open>_insert_table\<close>\<close>

text \<open>A cell after \<open>cell.text = cell_data\<close> and the formatting loop over its paragraphs.\<close>

definition formatted_cell :: "nat \<Rightarrow> string \<Rightarrow> para list" where
  "formatted_cell i cell_data =
     [empty_paragraph\<lparr>
        para_alignment := (if i = 0 then Some CENTER else None),
        para_runs := [empty_run\<lparr>r_text := cell_data, r_font_name := Some FONT_NAME,
                                r_font_size := Some 10, r_bold := (i = 0)\<rparr>]\<rparr>]"

definition populate_row ::
  "nat \<Rightarrow> nat \<Rightarrow> string list \<Rightarrow> para list list list \<Rightarrow> para list list list" where
  "populate_row cols i row_data rows =
     fold (\<lambda>jc g. if fst jc < cols then g[i := (g ! i)[fst jc := formatted_cell i (snd jc)]] else g)
       (enumerate 0 row_data) rows"

definition populate :: "nat \<Rightarrow> string list list \<Rightarrow> para list list list \<Rightarrow> para list list list" where
  "populate cols table_data rows =
     fold (\<lambda>ir g. populate_row cols (fst ir) (snd ir) g) (enumerate 0 table_data) rows"

text \<open>\<open>doc.add_table(rows, cols)\<close> with the style \<open>Table Grid\<close>, then the population loop.\<close>

definition table_grid :: "nat \<Rightarrow> nat \<Rightarrow> string list list \<Rightarrow> block" where
  "table_grid rows cols table_data =
     Grid \<lparr>g_style = ''Table Grid'',
           g_rows = populate cols table_data (replicate rows (replicate cols [empty_paragraph]))\<rparr>"

text \<open>\<open>max(len(row) for row in table_data)\<close>, for a list that is not empty.\<close>

definition max_row_width :: "string list list \<Rightarrow> nat" where
  "max_row_width table_data = foldr max (map length table_data) 0"

definition table_try :: "formatter \<Rightarrow> content \<Rightarrow> citation \<Rightarrow> document \<Rightarrow> py_error option \<times> document" where
  "table_try fmt cont cit doc =
     (case py_int (c_number cit) of
        None \<Rightarrow> (Some ValueError, doc)
      | Some table_num \<Rightarrow>
          (case filter (\<lambda>t. int (t_number t) = table_num) (tables cont) of
             [] \<Rightarrow> (None, doc)
           | table_data_dict # _ \<Rightarrow>
               (let table_data = t_data table_data_dict in
                if table_data = [] then (None, doc)
                else
                  let doc1 = doc @ [Para empty_paragraph,
                        caption_block (''Table '' @ show_int table_num @ '': '' @ t_caption table_data_dict)];
                      rows = length table_data;
                      cols = max_row_width table_data;
                      doc2 = (if rows > 0 \<and> cols > 0 then doc1 @ [table_grid rows cols table_data]
                              else doc1)
                  in (None, doc2 @ [Para empty_paragraph]))))"

definition insert_table :: "formatter \<Rightarrow> content \<Rightarrow> citation \<Rightarrow> document \<Rightarrow> document" where
  "insert_table fmt cont cit doc =
     (case table_try fmt cont cit doc of
        (None, doc') \<Rightarrow> doc'
      | (Some e, doc') \<Rightarrow> doc' @ [failure_placeholder ''Table'' (c_number cit)])"

subsection \<open>\<open>_add_body_with_citations\<close>\<close>

text \<open>The insertion map: paragraph index to the citations anchored there, in list order.\<close>

definition insertion_map :: "citation list \<Rightarrow> (nat \<rightharpoonup> citation list)" where
  "insertion_map citations =
     foldl (\<lambda>m citation.
        m(c_position citation \<mapsto>
            (case m (c_position citation) of None \<Rightarrow> [] | Some cs \<Rightarrow> cs) @ [citation]))
       Map.empty citations"

definition heading_block :: "string \<Rightarrow> block" where
  "heading_block txt =
     Para (empty_paragraph\<lparr>para_style := Some ''Heading 1'',
       para_runs := [empty_run\<lparr>r_text := txt, r_font_name := Some FONT_NAME\<rparr>]\<rparr>)"

definition text_block :: "formatter \<Rightarrow> string \<Rightarrow> block" where
  "text_block fmt txt =
     Para (set_paragraph_spacing fmt (empty_paragraph\<lparr>para_runs :=
       [empty_run\<lparr>r_text := txt, r_font_name := Some FONT_NAME,
                   r_font_size := Some (font_size fmt)\<rparr>]\<rparr>))"

text \<open>
  The paragraph of a body entry. A heading with an empty text gets no run, and the access
  to its first run raises; this error is not caught.
\<close>

definition body_block :: "formatter \<Rightarrow> body_paragraph \<Rightarrow> py_error + block" where
  "body_block fmt para_dict =
     (if is_heading para_dict then
        (if b_text para_dict = [] then Inl IndexError else Inr (heading_block (b_text para_dict)))
      else Inr (text_block fmt (b_text para_dict)))"

definition insert_citation :: "formatter \<Rightarrow> content \<Rightarrow> citation \<Rightarrow> document \<Rightarrow> document" where
  "insert_citation fmt cont citation doc =
     (if c_type citation = ''figure'' then insert_figure fmt cont citation doc
      else if c_type citation = ''table'' then insert_table fmt cont citation doc
      else doc)"

fun body_loop ::
  "formatter \<Rightarrow> content \<Rightarrow> (nat \<rightharpoonup> citation list) \<Rightarrow> (nat \<times> body_paragraph) list
     \<Rightarrow> document \<Rightarrow> py_error + document" where
  "body_loop fmt cont imap [] doc = Inr doc"
| "body_loop fmt cont imap (ip # rest) doc =
     (case body_block fmt (snd ip) of
        Inl e \<Rightarrow> Inl e
      | Inr b \<Rightarrow>
          body_loop fmt cont imap rest
            (case imap (fst ip) of
               None \<Rightarrow> doc @ [b]
             | Some cs \<Rightarrow> fold (insert_citation fmt cont) cs (doc @ [b])))"

definition add_body_with_citations ::
  "formatter \<Rightarrow> content \<Rightarrow> citation list \<Rightarrow> document \<Rightarrow> py_error + document" where
  "add_body_with_citations fmt cont citations doc =
     body_loop fmt cont (insertion_map citations) (enumerate 0 (body cont)) doc"

section \<open>Notions used to state the properties\<close>

text \<open>
  The following definitions are not code of the program. They name what the specification
  talks about, so that the program's functions can be compared with it.
\<close>







text \<open>A run that holds a picture of the given width and nothing else.\<close>

definition picture_run :: "image_blob \<Rightarrow> int \<Rightarrow> run" where
  "picture_run blob w = empty_run\<lparr>r_picture := Some \<lparr>pic_image = blob, pic_width = w\<rparr>\<rparr>"

text \<open>The sizing path applies: the image opens and its pixel width is not zero.\<close>

definition sizing_applies :: "image_blob \<Rightarrow> bool" where
  "sizing_applies blob = (case pil_size blob of None \<Rightarrow> False | Some sz \<Rightarrow> fst sz \<noteq> 0)"



text \<open>
  The blocks of a figure that is placed: the spacing paragraph, the centred paragraph with
  the picture, the caption and the closing spacing paragraph. The picture has the width of
  the sizing path when the sizes could be computed and the configured width otherwise.
\<close>

definition placed_figure :: "formatter \<Rightarrow> int \<Rightarrow> figure \<Rightarrow> block list" where
  "placed_figure fmt n fig =
     [Para empty_paragraph,
      image_paragraph (picture_run (f_image_data fig)
        (if sizing_applies (f_image_data fig) then Inches (min (figure_width fmt) 6.5)
         else Inches (figure_width fmt))),
      caption_block (''Figure '' @ show_int n @ '': '' @ f_caption fig),
      Para empty_paragraph]"


text \<open>The lines the classifier looks at: the text of each paragraph, trimmed.\<close>

definition stripped :: "raw_paragraph list \<Rightarrow> string list" where
  "stripped paras = map (\<lambda>p. strip (p_text p)) paras"

text \<open>
  The abstract as the specification words it, for an \<open>Abstract\<close> line at index \<open>k\<close>: the
  non-empty lines after it, up to the first end line, joined by single spaces.
\<close>

definition abstract_as_claimed :: "nat \<Rightarrow> string list \<Rightarrow> string" where
  "abstract_as_claimed k lines =
     join_space (filter (\<lambda>t. t \<noteq> []) (takeWhile (\<lambda>t. \<not> is_abstract_end t) (drop (Suc k) lines)))"

text \<open>
  The lines the program collects: those after the first \<open>Abstract\<close> line and before the
  first end line after it that are neither empty nor an \<open>Abstract\<close> line themselves.
\<close>

definition abstract_lines :: "string list \<Rightarrow> string list" where
  "abstract_lines lines =
     filter (\<lambda>t. t \<noteq> [] \<and> \<not> is_abstract_start t)
       (takeWhile (\<lambda>t. \<not> is_abstract_end t)
          (tl (dropWhile (\<lambda>t. \<not> is_abstract_start t) lines)))"


text \<open>The relationships from which a figure is extracted, and those that are skipped with
  a warning.\<close>

definition extracted_ok :: "relationship \<Rightarrow> bool" where
  "extracted_ok r = (contains ''image'' (target_ref r) \<and> target_blob r \<noteq> None)"

definition extraction_fails :: "relationship \<Rightarrow> bool" where
  "extraction_fails r = (contains ''image'' (target_ref r) \<and> target_blob r = None)"

section \<open>Example inputs\<close>

text \<open>The default configuration, and the widest figure width the interface offers.\<close>

definition fmt6 :: formatter where
  "fmt6 = \<lparr>font_size = 12, line_spacing = 2, figure_width = 6\<rparr>"

definition fmt7 :: formatter where
  "fmt7 = \<lparr>font_size = 12, line_spacing = 2, figure_width = 7\<rparr>"

text \<open>
  An image of 1200 by 800 pixels that both decoders read; an image that the imaging
  library does not open while the writer accepts it; an image that the writer rejects.
\<close>

definition img_ok :: image_blob where
  "img_ok = \<lparr>pil_size = Some (1200, 800), docx_accepts = True\<rparr>"

definition img_unreadable :: image_blob where
  "img_unreadable = \<lparr>pil_size = None, docx_accepts = True\<rparr>"

definition img_rejected :: image_blob where
  "img_rejected = \<lparr>pil_size = Some (1200, 800), docx_accepts = False\<rparr>"

definition figure_one :: "image_blob \<Rightarrow> figure" where
  "figure_one blob = \<lparr>f_number = 1, f_image_data = blob, f_caption = ''Cap'', f_rel_id = ''rId1''\<rparr>"

definition plain :: "string \<Rightarrow> body_paragraph" where
  "plain t = \<lparr>b_text = t, b_style = ''Normal'', is_heading = False\<rparr>"

definition content_with :: "body_paragraph list \<Rightarrow> figure list \<Rightarrow> table_entry list \<Rightarrow> content" where
  "content_with bd figs tabs =
     \<lparr>title = [], authors = [], abstract = [], body = bd, references = [],
      figures = figs, tables = tabs\<rparr>"

definition cite :: "string \<Rightarrow> string \<Rightarrow> nat \<Rightarrow> citation" where
  "cite kind num i =
     \<lparr>c_type = kind, c_number = num, c_position = i, c_context = [], c_match_text = []\<rparr>"

definition styled :: "string \<Rightarrow> bool \<Rightarrow> raw_paragraph" where
  "styled t bold = \<lparr>p_text = t, p_style = Some ''Normal'', p_runs = [Some bold]\<rparr>"

section \<open>Properties of the citation locator\<close>



declare unique_loop.simps(2) [simp del]
















section \<open>Properties of placement\<close>

subsection \<open>Placement only appends\<close>

lemma add_picture_cases:
  "add_picture img w r = (if docx_accepts img then Inr (r\<lparr>r_picture := Some \<lparr>pic_image = img, pic_width = w\<rparr>\<rparr>) else Inl ImageError)"
  by (simp add: add_picture_def)

















subsection \<open>The paths of the figure insertion\<close>

lemma add_figure_image_sized:
  assumes "pil_size blob = Some (w, h)" "w \<noteq> 0" "docx_accepts blob"
  shows "add_figure_image fmt blob doc =
           (None, doc @ [image_paragraph (picture_run blob (Inches (min (figure_width fmt) 6.5)))])"
  using assms
  by (simp add: add_figure_image_def sized_picture_def figure_geometry_def add_picture_def
      picture_run_def Let_def)

lemma add_figure_image_fallback:
  assumes "\<not> sizing_applies blob" "docx_accepts blob"
  shows "add_figure_image fmt blob doc =
           (None, doc @ [image_paragraph (picture_run blob (Inches (figure_width fmt)))])"
  using assms
  by (auto simp: add_figure_image_def sized_picture_def figure_geometry_def add_picture_def
      fallback_picture_def picture_run_def sizing_applies_def Let_def split: option.splits)

lemma add_figure_image_rejected:
  assumes "\<not> docx_accepts blob"
  shows "add_figure_image fmt blob doc =
           (Some ImageError,
            doc @ (if sizing_applies blob then [image_paragraph empty_run] else [])
                @ [image_paragraph empty_run])"
  using assms
  by (auto simp: add_figure_image_def sized_picture_def figure_geometry_def add_picture_def
      fallback_picture_def sizing_applies_def Let_def split: option.splits)

lemma figure_try_found:
  assumes "py_int (rstrip_chars uppercase_letters (c_number cit)) = Some n"
    and "filter (\<lambda>f. int (f_number f) = n) (figures cont) = fig # rest"
  shows "figure_try fmt cont cit doc =
     (case add_figure_image fmt (f_image_data fig) (doc @ [Para empty_paragraph]) of
        (Some e, doc') \<Rightarrow> (Some e, doc')
      | (None, doc') \<Rightarrow>
          (None, doc' @ [caption_block (''Figure '' @ show_int n @ '': '' @ f_caption fig),
                         Para empty_paragraph]))"
  using assms by (simp add: figure_try_def)

lemma missing_figure_skipped:
  assumes "py_int (rstrip_chars uppercase_letters (c_number cit)) = Some n"
    and "filter (\<lambda>f. int (f_number f) = n) (figures cont) = []"
  shows "insert_figure fmt cont cit doc = doc"
  using assms by (simp add: insert_figure_def figure_try_def)

lemma missing_table_skipped:
  assumes "py_int (c_number cit) = Some n"
    and "filter (\<lambda>t. int (t_number t) = n) (tables cont) = []"
  shows "insert_table fmt cont cit doc = doc"
  using assms by (simp add: insert_table_def table_try_def)





text \<open>A figure or a table that is found and placed emits its blocks.\<close>

lemma insert_figure_placed:
  assumes "py_int (rstrip_chars uppercase_letters (c_number cit)) = Some n"
    and "filter (\<lambda>f. int (f_number f) = n) (figures cont) = fig # rest"
    and "docx_accepts (f_image_data fig)"
  shows "insert_figure fmt cont cit doc = doc @ placed_figure fmt n fig"
proof (cases "sizing_applies (f_image_data fig)")
  case True
  then obtain w h where "pil_size (f_image_data fig) = Some (w, h)" and "w \<noteq> 0"
    by (auto simp: sizing_applies_def split: option.splits)
  from add_figure_image_sized [OF this assms(3), of fmt "doc @ [Para empty_paragraph]"] True
  show ?thesis
    by (simp add: insert_figure_def figure_try_found [OF assms(1,2)] placed_figure_def)
next
  case False
  from add_figure_image_fallback [OF False assms(3), of fmt "doc @ [Para empty_paragraph]"] False
  show ?thesis
    by (simp add: insert_figure_def figure_try_found [OF assms(1,2)] placed_figure_def)
qed



subsection \<open>An asset cited from two positions\<close>



subsection \<open>A citation without an asset\<close>

text \<open>
  A cited number that parses and matches no extracted asset emits nothing.
\<close>

lemma missing_asset_emits_nothing:
  assumes "filter (\<lambda>f. int (f_number f) = n) (figures cont) = []"
    and "filter (\<lambda>t. int (t_number t) = n) (tables cont) = []"
  shows "py_int (rstrip_chars uppercase_letters (c_number cit)) = Some n
           \<Longrightarrow> insert_figure fmt cont cit doc = doc"
    and "py_int (c_number cit) = Some n \<Longrightarrow> insert_table fmt cont cit doc = doc"
  using assms by (simp_all add: missing_figure_skipped missing_table_skipped)

text \<open>
  Claim C3. A citation whose number, after the letter suffix of a figure is stripped, has
  no matching asset should emit no block at all. The citation patterns are matched without
  regard to case, so they accept a lower-case suffix, while the insertion strips upper-case
  letters only: for the body text \<open>figure 3a\<close> and no extracted figure, the number
  \<open>3a\<close> does not parse, and the placeholder \<open>[Figure 3a - insertion failed]\<close> is
  emitted after the paragraph.
\<close>

theorem lowercase_suffix_gets_placeholder:
  "detect_citations [plain ''figure 3a'']
     = [\<lparr>c_type = ''figure'', c_number = ''3a'', c_position = 0,
         c_context = ''figure 3a'', c_match_text = ''figure 3a''\<rparr>]
   \<and> add_body_with_citations fmt6 (content_with [plain ''figure 3a''] [] [])
        (detect_citations [plain ''figure 3a'']) []
     = Inr [text_block fmt6 ''figure 3a'', failure_placeholder ''Figure'' ''3a'']"
proof -
  have cits: "detect_citations [plain ''figure 3a'']
     = [\<lparr>c_type = ''figure'', c_number = ''3a'', c_position = 0,
         c_context = ''figure 3a'', c_match_text = ''figure 3a''\<rparr>]"
    by code_simp
  have "add_body_with_citations fmt6 (content_with [plain ''figure 3a''] [] [])
        [\<lparr>c_type = ''figure'', c_number = ''3a'', c_position = 0,
         c_context = ''figure 3a'', c_match_text = ''figure 3a''\<rparr>] []
     = Inr [text_block fmt6 ''figure 3a'', failure_placeholder ''Figure'' ''3a'']"
    by code_simp
  with cits show ?thesis by simp
qed

subsection \<open>A placement that fails\<close>




text \<open>
  Claim C9. The failure of a figure placement is not atomic. When the figure exists and
  the writer rejects its image, the blocks already emitted stay in the document: the
  spacing paragraph, the centred paragraph of the sized attempt (when the sizes could be
  computed) and the centred paragraph of the fallback attempt, each with an empty run.
  The placeholder comes after them.
\<close>

theorem figure_failure_keeps_emitted_blocks:
  assumes "py_int (rstrip_chars uppercase_letters (c_number cit)) = Some n"
    and "filter (\<lambda>f. int (f_number f) = n) (figures cont) = fig # rest"
    and "\<not> docx_accepts (f_image_data fig)"
  shows "insert_figure fmt cont cit doc =
           doc @ [Para empty_paragraph]
               @ (if sizing_applies (f_image_data fig) then [image_paragraph empty_run] else [])
               @ [image_paragraph empty_run, failure_placeholder ''Figure'' (c_number cit)]"
  by (simp add: insert_figure_def figure_try_found [OF assms(1,2)]
      add_figure_image_rejected [OF assms(3)])

theorem figure_failure_keeps_emitted_blocks_witness:
  "insert_figure fmt6 (content_with [plain ''a''] [figure_one img_rejected] [])
     (cite ''figure'' ''1'' 0) []
   = [Para empty_paragraph, image_paragraph empty_run, image_paragraph empty_run,
      failure_placeholder ''Figure'' ''1'']"
proof -
  let ?cont = "content_with [plain ''a''] [figure_one img_rejected] []"
  let ?c = "cite ''figure'' ''1'' 0"
  have h1: "py_int (rstrip_chars uppercase_letters (c_number ?c)) = Some 1" by code_simp
  have h2: "filter (\<lambda>f. int (f_number f) = 1) (figures ?cont) = figure_one img_rejected # []"
    by (simp add: content_with_def figure_one_def)
  have h3: "\<not> docx_accepts (f_image_data (figure_one img_rejected))"
    by (simp add: figure_one_def img_rejected_def)
  have sz: "sizing_applies (f_image_data (figure_one img_rejected))"
    by (simp add: figure_one_def img_rejected_def sizing_applies_def)
  from figure_failure_keeps_emitted_blocks [OF h1 h2 h3, of fmt6 "[]"] sz
  show ?thesis by (simp add: cite_def)
qed

subsection \<open>The width of a placed figure\<close>

text \<open>
  On the sizing path, where the image opens with a pixel width that is not zero, the
  figure is handed to the writer at the width \<open>min(figure_width, 6.5)\<close> inches. Only the
  width is handed over; the writer scales the height with it. The height computed beside
  the width is the width times height over width of the image.
\<close>

lemma sized_figure_width:
  assumes "py_int (rstrip_chars uppercase_letters (c_number cit)) = Some n"
    and "filter (\<lambda>f. int (f_number f) = n) (figures cont) = fig # rest"
    and "docx_accepts (f_image_data fig)"
    and "sizing_applies (f_image_data fig)"
  shows "insert_figure fmt cont cit doc =
           doc @ [Para empty_paragraph,
                  image_paragraph (picture_run (f_image_data fig)
                     (Inches (min (figure_width fmt) 6.5))),
                  caption_block (''Figure '' @ show_int n @ '': '' @ f_caption fig),
                  Para empty_paragraph]"
  using assms(4) by (simp add: insert_figure_placed [OF assms(1-3)] placed_figure_def)

lemma figure_geometry_example: "figure_geometry fmt6 (1200, 800) = Inr (6, 4)"
  by (simp add: figure_geometry_def fmt6_def)

text \<open>
  Claim C5. Every figure that is placed should have the width \<open>min(figure_width, 6.5)\<close>
  inches. The handler of the sizing path retries at the configured width and leaves the
  cap out: at a configured width of 7 inches an image that the imaging library opens is
  placed at 6.5 inches (5943600 EMU), while an image that it does not open and the writer
  accepts is placed at 7 inches (6400800 EMU).
\<close>

theorem fallback_width_exceeds_cap:
  "insert_figure fmt7 (content_with [plain ''a''] [figure_one img_ok] [])
        (cite ''figure'' ''1'' 0) []
     = [Para empty_paragraph, image_paragraph (picture_run img_ok 5943600),
        caption_block ''Figure 1: Cap'', Para empty_paragraph]
   \<and> insert_figure fmt7 (content_with [plain ''a''] [figure_one img_unreadable] [])
        (cite ''figure'' ''1'' 0) []
     = [Para empty_paragraph, image_paragraph (picture_run img_unreadable 6400800),
        caption_block ''Figure 1: Cap'', Para empty_paragraph]
   \<and> Inches (min (figure_width fmt7) 6.5) = 5943600"
proof (intro conjI)
  show "insert_figure fmt7 (content_with [plain ''a''] [figure_one img_ok] [])
        (cite ''figure'' ''1'' 0) []
     = [Para empty_paragraph, image_paragraph (picture_run img_ok 5943600),
        caption_block ''Figure 1: Cap'', Para empty_paragraph]"
    by code_simp
  show "insert_figure fmt7 (content_with [plain ''a''] [figure_one img_unreadable] [])
        (cite ''figure'' ''1'' 0) []
     = [Para empty_paragraph, image_paragraph (picture_run img_unreadable 6400800),
        caption_block ''Figure 1: Cap'', Para empty_paragraph]"
    by code_simp
  show "Inches (min (figure_width fmt7) 6.5) = 5943600"
    by (simp add: Inches_def fmt7_def)
qed

subsection \<open>A table whose rows are all empty\<close>




section \<open>Properties of the asset extractor\<close>

lemma extract_figures_run_snoc:
  "extract_figures_run paras (rels @ [r]) =
     extract_figure_step paras (extract_figures_run paras rels) r"
  by (simp add: extract_figures_run_def)

lemma extract_figures_invariant:
  "figure_counter (extract_figures_run paras rels) = length (filter extracted_ok rels)
   \<and> map f_number (x_figures (extract_figures_run paras rels))
       = [1..<Suc (length (filter extracted_ok rels))]
   \<and> map f_image_data (x_figures (extract_figures_run paras rels))
       = map (\<lambda>r. the (target_blob r)) (filter extracted_ok rels)
   \<and> map f_rel_id (x_figures (extract_figures_run paras rels))
       = map rel_id (filter extracted_ok rels)
   \<and> length (warnings (extract_figures_run paras rels))
       = length (filter extraction_fails rels)"
proof (induction rels rule: rev_induct)
  case Nil
  then show ?case by (simp add: extract_figures_run_def)
next
  case (snoc r rels)
  show ?case
  proof (cases "contains ''image'' (target_ref r)")
    case False
    with snoc show ?thesis
      by (simp add: extract_figures_run_snoc extract_figure_step_def extracted_ok_def
          extraction_fails_def)
  next
    case True
    show ?thesis
    proof (cases "target_blob r")
      case None
      with True snoc show ?thesis
        by (simp add: extract_figures_run_snoc extract_figure_step_def extracted_ok_def
            extraction_fails_def)
    next
      case (Some blob)
      with True snoc show ?thesis
        by (simp add: extract_figures_run_snoc extract_figure_step_def extracted_ok_def
            extraction_fails_def)
    qed
  qed
qed

text \<open>
  Claim C7. When reading an image relationship raises, that image is skipped with one
  warning and the loop goes on. The counter advances only with a figure that was
  extracted: the figures are numbered 1 to k without a gap, where k is the number of
  image relationships that could be read, and they are these relationships in their
  order.
\<close>

theorem figures_numbered_consecutively:
  "map f_number (extract_figures paras rels) = [1..<Suc (length (filter extracted_ok rels))]
   \<and> length (extract_figures paras rels) = length (filter extracted_ok rels)
   \<and> map f_image_data (extract_figures paras rels)
       = map (\<lambda>r. the (target_blob r)) (filter extracted_ok rels)
   \<and> map f_rel_id (extract_figures paras rels) = map rel_id (filter extracted_ok rels)
   \<and> figure_counter (extract_figures_run paras rels) = length (filter extracted_ok rels)
   \<and> length (warnings (extract_figures_run paras rels)) = length (filter extraction_fails rels)"
proof -
  note inv = extract_figures_invariant [of paras rels]
  from inv have "map f_image_data (extract_figures paras rels)
                   = map (\<lambda>r. the (target_blob r)) (filter extracted_ok rels)"
    by (simp add: extract_figures_def)
  from arg_cong [OF this, of length]
  have len: "length (extract_figures paras rels) = length (filter extracted_ok rels)"
    by simp
  from inv len show ?thesis by (simp add: extract_figures_def)
qed

theorem figures_numbered_consecutively_witness:
  "map f_number (extract_figures []
     [\<lparr>rel_id = ''rId1'', target_ref = ''media/image1.png'', target_blob = Some img_ok\<rparr>,
      \<lparr>rel_id = ''rId2'', target_ref = ''media/image2.png'', target_blob = None\<rparr>,
      \<lparr>rel_id = ''rId3'', target_ref = ''styles.xml'', target_blob = None\<rparr>,
      \<lparr>rel_id = ''rId4'', target_ref = ''media/image3.png'', target_blob = Some img_rejected\<rparr>])
   = [1, 2]
   \<and> map f_rel_id (extract_figures []
     [\<lparr>rel_id = ''rId1'', target_ref = ''media/image1.png'', target_blob = Some img_ok\<rparr>,
      \<lparr>rel_id = ''rId2'', target_ref = ''media/image2.png'', target_blob = None\<rparr>,
      \<lparr>rel_id = ''rId3'', target_ref = ''styles.xml'', target_blob = None\<rparr>,
      \<lparr>rel_id = ''rId4'', target_ref = ''media/image3.png'', target_blob = Some img_rejected\<rparr>])
   = [''rId1'', ''rId4'']"
proof -
  let ?rels = "[\<lparr>rel_id = ''rId1'', target_ref = ''media/image1.png'', target_blob = Some img_ok\<rparr>,
      \<lparr>rel_id = ''rId2'', target_ref = ''media/image2.png'', target_blob = None\<rparr>,
      \<lparr>rel_id = ''rId3'', target_ref = ''styles.xml'', target_blob = None\<rparr>,
      \<lparr>rel_id = ''rId4'', target_ref = ''media/image3.png'', target_blob = Some img_rejected\<rparr>]"
  have n: "[1..<Suc (length (filter extracted_ok ?rels))] = [1, 2]" by code_simp
  have r: "map rel_id (filter extracted_ok ?rels) = [''rId1'', ''rId4'']" by code_simp
  from figures_numbered_consecutively [of "[]" ?rels] n r show ?thesis by simp
qed

section \<open>Properties of the paragraph classifier\<close>

subsection \<open>The abstract\<close>

lemma match_first_literal:
  assumes "re_match_here (Item (Lit c) One cap # p) s \<noteq> None"
  shows "\<exists>x xs. s = x # xs \<and> to_lower x = to_lower c"
  using assms by (cases s) (auto split: if_splits)

lemma start_first_char:
  assumes "is_abstract_start t"
  shows "\<exists>x xs. t = x # xs \<and> to_lower x = CHR ''a''"
proof -
  have a: "to_lower CHR ''a'' = CHR ''a''" by code_simp
  from assms have "re_match_here (Item (Lit CHR ''a'') One False
                     # (lit ''bstract'' @ [Item (Lit CHR '':'') Opt False, Eos])) t \<noteq> None"
    by (simp add: is_abstract_start_def re_match_def abstract_start_def lit_def)
  from match_first_literal [OF this] a show ?thesis by simp
qed

lemma end_first_char:
  assumes "is_abstract_end t"
  shows "\<exists>x xs. t = x # xs \<and> to_lower x \<in> {CHR ''i'', CHR ''m'', CHR ''k''}"
proof -
  have l: "to_lower CHR ''i'' = CHR ''i''" "to_lower CHR ''m'' = CHR ''m''"
    "to_lower CHR ''k'' = CHR ''k''"
    by code_simp+
  from assms consider
      "re_match_here (Item (Lit CHR ''i'') One False
         # (lit ''ntroduction'' @ [Item (Lit CHR '':'') Opt False, Eos])) t \<noteq> None"
    | "re_match_here (Item (Lit CHR ''m'') One False
         # (lit ''ethods'' @ [Item (Lit CHR '':'') Opt False, Eos])) t \<noteq> None"
    | "re_match_here (Item (Lit CHR ''k'') One False
         # (lit ''eywords'' @ [Item (Lit CHR '':'') Opt False, Eos])) t \<noteq> None"
    by (auto simp: is_abstract_end_def re_match_def abstract_end_def lit_def)
  then show ?thesis
  proof cases
    case 1
    from match_first_literal [OF this] l show ?thesis by auto
  next
    case 2
    from match_first_literal [OF this] l show ?thesis by auto
  next
    case 3
    from match_first_literal [OF this] l show ?thesis by auto
  qed
qed

lemma start_not_end: "is_abstract_start t \<Longrightarrow> \<not> is_abstract_end t"
proof
  assume "is_abstract_start t" and "is_abstract_end t"
  from start_first_char [OF this(1)] end_first_char [OF this(2)]
  show False by auto
qed

lemma abstract_loop_inside:
  "abstract_loop True acc ps =
     acc @ filter (\<lambda>t. t \<noteq> [] \<and> \<not> is_abstract_start t)
             (takeWhile (\<lambda>t. \<not> is_abstract_end t) (stripped ps))"
proof (induction ps arbitrary: acc)
  case Nil
  then show ?case by (simp add: stripped_def)
next
  case (Cons p ps)
  show ?case
  proof (cases "is_abstract_start (strip (p_text p))")
    case True
    with start_not_end [OF True] Cons.IH [of acc] show ?thesis
      by (simp add: stripped_def)
  next
    case False
    with Cons.IH [of acc] Cons.IH [of "acc @ [strip (p_text p)]"] show ?thesis
      by (simp add: stripped_def)
  qed
qed

lemma abstract_loop_outside:
  "abstract_loop False acc ps = acc @ abstract_lines (stripped ps)"
proof (induction ps)
  case Nil
  then show ?case by (simp add: stripped_def abstract_lines_def)
next
  case (Cons p ps)
  show ?case
  proof (cases "is_abstract_start (strip (p_text p))")
    case True
    then show ?thesis
      using abstract_loop_inside [of acc ps]
      by (simp add: stripped_def abstract_lines_def)
  next
    case False
    with Cons.IH show ?thesis
      by (simp add: stripped_def abstract_lines_def)
  qed
qed

text \<open>
  Claim C6, amended. The extracted abstract is the space-join of the trimmed lines that
  follow the first \<open>Abstract\<close> line, up to but excluding the first later line that is
  exactly \<open>Introduction\<close>, \<open>Methods\<close> or \<open>Keywords\<close>, leaving out the empty lines
  and every further \<open>Abstract\<close> line.
\<close>

theorem extract_abstract_lines:
  "extract_abstract paras = join_space (abstract_lines (stripped paras))"
  by (simp add: extract_abstract_def abstract_loop_outside)

theorem extract_abstract_lines_witness:
  "extract_abstract (map (\<lambda>t. styled t False)
      [''Abstract:'', ''a'', '''', ''abstract'', '' b '', ''Methods'', ''c''])
   = ''a b''"
proof -
  have "join_space (abstract_lines (stripped (map (\<lambda>t. styled t False)
      [''Abstract:'', ''a'', '''', ''abstract'', '' b '', ''Methods'', ''c''])))
    = ''a b''"
    by code_simp
  with extract_abstract_lines [of "map (\<lambda>t. styled t False)
      [''Abstract:'', ''a'', '''', ''abstract'', '' b '', ''Methods'', ''c'']"]
  show ?thesis by simp
qed

text \<open>
  Claim C6 as it is stated takes every non-empty line between the boundary lines. The
  program also leaves out a second \<open>Abstract\<close> line: for the lines \<open>Abstract\<close>,
  \<open>a\<close>, \<open>Abstract\<close>, \<open>b\<close>, \<open>Methods\<close> it returns \<open>a b\<close>, while the lines after
  the first \<open>Abstract\<close> line join to \<open>a Abstract b\<close> and those after the second to
  \<open>b\<close>.
\<close>

theorem repeated_abstract_heading_counterexample:
  "is_abstract_start (stripped (map (\<lambda>t. styled t False)
       [''Abstract'', ''a'', ''Abstract'', ''b'', ''Methods'']) ! 0)
   \<and> is_abstract_start (stripped (map (\<lambda>t. styled t False)
       [''Abstract'', ''a'', ''Abstract'', ''b'', ''Methods'']) ! 2)
   \<and> extract_abstract (map (\<lambda>t. styled t False)
       [''Abstract'', ''a'', ''Abstract'', ''b'', ''Methods'']) = ''a b''
   \<and> abstract_as_claimed 0 (stripped (map (\<lambda>t. styled t False)
       [''Abstract'', ''a'', ''Abstract'', ''b'', ''Methods''])) = ''a Abstract b''
   \<and> abstract_as_claimed 2 (stripped (map (\<lambda>t. styled t False)
       [''Abstract'', ''a'', ''Abstract'', ''b'', ''Methods''])) = ''b''"
  by code_simp

subsection \<open>The title\<close>








end
